theory Spec2Isabelle
  imports Main "HOL-Library.Word"
begin

unbundle bit_operations_syntax

section \<open>Machine types\<close>

type_synonym u8 = "8 word"
type_synonym u16 = "16 word"
type_synonym u32 = "32 word"

text \<open>A signed 32-bit value (\<open>s32\<close>) is a 32-bit word read with \<^term>\<open>sint\<close>.\<close>

type_synonym s32 = "32 word"

text \<open>
  Modelled from the spec: \<open>BIT(x, n)\<close> is a helper of the emulator core that is not
  part of the device sources. It yields bit \<open>n\<close> of \<open>x\<close> as the value 0 or 1 of
  the type of \<open>x\<close> (the spec reads bit 6 and bit 7 of the port byte as line levels).
\<close>

definition BIT :: "'a::len word \<Rightarrow> nat \<Rightarrow> 'a word" where
  "BIT x n = drop_bit n x AND 1"


section \<open>The M0110A keyboard (\<open>pluskbd.cpp\<close>)\<close>

text \<open>
  The device state is the four members of \<open>m0110a_device\<close>. The ten matrix rows
  \<open>m_rows[i]->read()\<close> are input ports: they are an input of \<open>bus_r\<close>, a function
  from the row index to the byte read (each row port has eight one-bit fields).
\<close>

record m0110a =
  m_row_drive :: u16
  m_host_clock_out :: u8
  m_host_data_out :: u8
  m_host_data_in :: u8

text \<open>\<open>device_start\<close>: no row selected, all three lines idle high.\<close>

definition device_start :: m0110a where
  "device_start =
     \<lparr>m_row_drive = 0x03ff, m_host_clock_out = 1, m_host_data_out = 1, m_host_data_in = 0x01\<rparr>"

text \<open>
  \<open>write_clock\<close> and \<open>write_data\<close> push a line level to the host port. A call is
  recorded as an event; \<open>p2_w\<close> returns the events in the order it makes the calls.
\<close>

datatype line_event = Write_clock u8 | Write_data u8

definition host_data_r :: "m0110a \<Rightarrow> u8" where
  "host_data_r s = m_host_data_in s XOR 0x01"

definition p1_w :: "u8 \<Rightarrow> m0110a \<Rightarrow> m0110a" where
  "p1_w data s = s\<lparr>m_row_drive := (m_row_drive s AND 0x0300) OR ucast data\<rparr>"

definition p2_w :: "u8 \<Rightarrow> m0110a \<Rightarrow> line_event list \<times> m0110a" where
  "p2_w data s =
     (let s1 = s\<lparr>m_row_drive := (m_row_drive s AND 0x00ff) OR push_bit 8 (ucast (data AND 0x03))\<rparr>;
          (ev1, s2) =
            (if BIT data 6 \<noteq> m_host_clock_out s1
             then ([Write_clock (BIT data 6)], s1\<lparr>m_host_clock_out := BIT data 6\<rparr>)
             else ([], s1));
          (ev2, s3) =
            (if BIT data 7 \<noteq> m_host_data_out s2
             then ([Write_data (BIT data 7)], s2\<lparr>m_host_data_out := BIT data 7\<rparr>)
             else ([], s2))
      in (ev1 @ ev2, s3))"

text \<open>\<open>m_rows.size()\<close>: the array is declared with ten row ports.\<close>

definition m_rows_size :: nat where
  "m_rows_size = 10"

text \<open>The loop of \<open>bus_r\<close>, from index \<open>i\<close> with the running \<open>result\<close>.\<close>

function bus_r_loop :: "(nat \<Rightarrow> u8) \<Rightarrow> u16 \<Rightarrow> nat \<Rightarrow> u8 \<Rightarrow> u8" where
  "bus_r_loop m_rows row_drive i result =
     (if m_rows_size > i
      then bus_r_loop m_rows row_drive (Suc i)
             (if BIT row_drive i = 0 then result AND m_rows i else result)
      else result)"
  by pat_completeness auto
termination
  by (relation "measure (\<lambda>(m_rows, row_drive, i, result). m_rows_size - i)") auto

definition bus_r :: "(nat \<Rightarrow> u8) \<Rightarrow> m0110a \<Rightarrow> u8" where
  "bus_r m_rows s = bus_r_loop m_rows (m_row_drive s) 0 0xff"

text \<open>
  \<open>update_host_data\<close> is the timer callback; \<open>param\<close> is the line level that
  \<open>data_w\<close> handed to the scheduler.
\<close>

definition update_host_data :: "s32 \<Rightarrow> m0110a \<Rightarrow> m0110a" where
  "update_host_data param s =
     (if (param \<noteq> 0) \<noteq> (m_host_data_in s \<noteq> 0)
      then s\<lparr>m_host_data_in := (if param \<noteq> 0 then 0x01 else 0x00)\<rparr>
      else s)"

text \<open>
  Modelled from the spec: the scheduler (\<open>machine().scheduler().synchronize\<close>) is not
  part of the device sources. Following section 5 of the spec, a synchronize request is
  an event queued for the current instant, and the queued events are processed in strict
  first-in first-out order at the next synchronization point. \<open>timers\<close> is that
  queue, holding the parameter of each pending \<open>update_host_data\<close> event.
\<close>

record machine =
  device :: m0110a
  timers :: "s32 list"

text \<open>\<open>data_w\<close> only hands the new level to the scheduler.\<close>

definition data_w :: "s32 \<Rightarrow> machine \<Rightarrow> machine" where
  "data_w state m = m\<lparr>timers := timers m @ [state]\<rparr>"

text \<open>
  Modelled from the spec: the synchronization point runs the pending events oldest
  first. \<open>synchronize_trace\<close> lists the device state after each event, which is what
  the controller can observe between events; \<open>synchronize_point\<close> is the machine
  once the queue is empty.
\<close>

fun run_timers :: "s32 list \<Rightarrow> m0110a \<Rightarrow> m0110a list" where
  "run_timers [] s = []"
| "run_timers (param # rest) s = update_host_data param s # run_timers rest (update_host_data param s)"

definition synchronize_trace :: "machine \<Rightarrow> m0110a list" where
  "synchronize_trace m = run_timers (timers m) (device m)"

definition synchronize_point :: "machine \<Rightarrow> machine" where
  "synchronize_point m = \<lparr>device = last (device m # synchronize_trace m), timers = []\<rparr>"


section \<open>The Y8950 sound chip (\<open>y8950.cpp\<close>)\<close>

text \<open>
  The chip owns an FM engine and an ADPCM-B engine and talks to four external handlers.
  The engines, the status constants of the header and \<open>ymfm_roundtrip_fp\<close> are not
  part of the device sources: they are parameters of the model, collected in one record.
  Every function of the chip takes this record first, and every theorem below holds for
  all engines. An engine operation takes the engine state and returns the new one; the
  two status getters only read it.
\<close>

record ('fm, 'ad) parts =
  ALL_IRQS :: u8
  STATUS_ADPCM_B_EOS :: u8
  STATUS_ADPCM_B_BRDY :: u8
  STATUS_ADPCM_B_PLAYING :: u8
  channel_STATUS_EOS :: u8
  channel_STATUS_BRDY :: u8
  channel_STATUS_PLAYING :: u8
  ymfm_roundtrip_fp :: "s32 \<Rightarrow> s32"
  m_keyboard_read_handler :: "u32 \<Rightarrow> u8"
  m_io_read_handler :: "u32 \<Rightarrow> u8"
  opl_status :: "'fm \<Rightarrow> u8"
  opl_set_reset_status :: "u8 \<Rightarrow> u8 \<Rightarrow> 'fm \<Rightarrow> 'fm"
  opl_set_irq_mask :: "u8 \<Rightarrow> 'fm \<Rightarrow> 'fm"
  opl_write :: "u8 \<Rightarrow> u8 \<Rightarrow> 'fm \<Rightarrow> 'fm"
  opl_clock :: "u32 \<Rightarrow> 'fm \<Rightarrow> 'fm"
  opl_output :: "s32 \<Rightarrow> u32 \<Rightarrow> s32 \<Rightarrow> u32 \<Rightarrow> 'fm \<Rightarrow> s32 \<times> 'fm"
  adpcm_b_status :: "u32 \<Rightarrow> 'ad \<Rightarrow> u8"
  adpcm_b_read :: "u32 \<Rightarrow> 'ad \<Rightarrow> u8 \<times> 'ad"
  adpcm_b_write :: "u32 \<Rightarrow> u8 \<Rightarrow> 'ad \<Rightarrow> 'ad"
  adpcm_b_clock :: "u32 \<Rightarrow> 'ad \<Rightarrow> 'ad"
  adpcm_b_output :: "s32 list \<Rightarrow> u32 \<Rightarrow> u32 \<Rightarrow> 'ad \<Rightarrow> s32 list \<times> 'ad"

text \<open>
  \<open>opl_output acc rshift clipmax chanmask\<close> is \<open>m_opl.output(&sum, ...)\<close>: it gets the
  accumulator the pointer designates and returns its new value.
  \<open>adpcm_b_output buf rshift chanmask\<close> is \<open>m_adpcm_b.output(sums, ...)\<close> likewise,
  on the buffer \<open>sums\<close>.
\<close>

text \<open>
  Modelled from the spec: the sound stream of the emulator core is not part of the device
  sources. By section 5 of the spec, \<open>m_stream->update()\<close> brings the pending output
  up to the current instant: \<open>due\<close> counts the samples that time has made due since
  the last update, and \<open>produced\<close> holds the samples already finalized, oldest first.
\<close>

record stream =
  due :: nat
  produced :: "int list"

text \<open>
  The chip state: the three registers, the stream, the two engines, and the values
  handed so far to the two write handlers (\<open>m_keyboard_write_handler(0, v)\<close> and
  \<open>m_io_write_handler(0, v)\<close>), oldest first. \<open>sound_stream_update\<close> names a buffer
  \<open>sums\<close> that the function does not declare; whatever object that is, it is not the
  local \<open>sum\<close>, so the state carries it as a field of its own.
\<close>

record ('fm, 'ad) y8950 =
  m_address :: u8
  m_io_ddr :: u8
  m_irq_mask :: u8
  m_stream :: stream
  m_opl :: 'fm
  m_adpcm_b :: 'ad
  sums :: "s32 list"
  keyboard_written :: "u8 list"
  io_written :: "u8 list"

text \<open>
  \<open>combine_status\<close> names the FM engine \<open>m_opn\<close>. The constructor initialises one FM
  engine, \<open>m_opl\<close>, and section 3 of the spec gives the chip two engines; the model
  reads \<open>m_opn\<close> as that FM engine. The second argument \<open>~status\<close> is cut to a byte.
\<close>

definition combine_status :: "('fm, 'ad) parts \<Rightarrow> ('fm, 'ad) y8950 \<Rightarrow> u8 \<times> ('fm, 'ad) y8950" where
  "combine_status E s =
     (let status0 = opl_status E (m_opl s);
          adpcm_status = adpcm_b_status E 0 (m_adpcm_b s);
          status1 = (if adpcm_status AND channel_STATUS_EOS E \<noteq> 0
                     then status0 OR STATUS_ADPCM_B_EOS E else status0);
          status2 = (if adpcm_status AND channel_STATUS_BRDY E \<noteq> 0
                     then status1 OR STATUS_ADPCM_B_BRDY E else status1);
          status3 = (if adpcm_status AND channel_STATUS_PLAYING E \<noteq> 0
                     then status2 OR STATUS_ADPCM_B_PLAYING E else status2);
          status = status3 AND m_irq_mask s
      in (status, s\<lparr>m_opl := opl_set_reset_status E status (NOT status) (m_opl s)\<rparr>))"

text \<open>
  \<open>read\<close>: \<open>offset\<close> is an \<open>offs_t\<close>, so \<open>offset - 0x07\<close> is computed in 32 bits
  and wraps. The \<open>logerror\<close> diagnostic of the default case is not part of the state.
\<close>

definition read :: "('fm, 'ad) parts \<Rightarrow> u32 \<Rightarrow> ('fm, 'ad) y8950 \<Rightarrow> u8 \<times> ('fm, 'ad) y8950" where
  "read E offset s =
     (if offset AND 1 = 0 then combine_status E s
      else if m_address s = 0x05 then (m_keyboard_read_handler E 0, s)
      else if m_address s = 0x09 \<or> m_address s = 0x1a then
        (let (result, ad) = adpcm_b_read E (offset - 0x07) (m_adpcm_b s)
         in (result, s\<lparr>m_adpcm_b := ad\<rparr>))
      else if m_address s = 0x19 then (m_io_read_handler E 0, s)
      else (0xff, s))"

text \<open>
  Modelled from the spec: \<open>put_int_clamp(index, sample, maxclamp)\<close> belongs to the stream
  view. It clamps the signed sample to the range from \<open>-maxclamp\<close> to \<open>maxclamp\<close>
  and stores it at \<open>index\<close>; the value stored is given here, as an integer.
\<close>

definition put_int_clamp :: "s32 \<Rightarrow> s32 \<Rightarrow> int" where
  "put_int_clamp sample maxclamp =
     (if sint sample > sint maxclamp then sint maxclamp
      else if sint sample < - sint maxclamp then - sint maxclamp
      else sint sample)"

text \<open>The body of the loop of \<open>sound_stream_update\<close>: one target sample.\<close>

definition sound_stream_update_sample ::
  "('fm, 'ad) parts \<Rightarrow> ('fm, 'ad) y8950 \<Rightarrow> int \<times> ('fm, 'ad) y8950" where
  "sound_stream_update_sample E s =
     (let opl1 = opl_clock E 0x1ff (m_opl s);
          adpcm1 = adpcm_b_clock E 0x01 (m_adpcm_b s);
          (sum, opl2) = opl_output E 0 1 32767 0x1ff opl1;
          (sums2, adpcm2) = adpcm_b_output E (sums s) 2 0x01 adpcm1
      in (put_int_clamp (ymfm_roundtrip_fp E sum) 32768,
          s\<lparr>m_opl := opl2, m_adpcm_b := adpcm2, sums := sums2\<rparr>))"

text \<open>The loop over the target samples; \<open>outputs\<close> is the view \<open>outputs[0]\<close>.\<close>

function sound_stream_update_loop ::
  "('fm, 'ad) parts \<Rightarrow> nat \<Rightarrow> int list \<Rightarrow> ('fm, 'ad) y8950 \<Rightarrow> int list \<times> ('fm, 'ad) y8950" where
  "sound_stream_update_loop E sampindex outputs s =
     (if sampindex < length outputs
      then (let (v, s') = sound_stream_update_sample E s
            in sound_stream_update_loop E (Suc sampindex) (outputs[sampindex := v]) s')
      else (outputs, s))"
  by pat_completeness auto
termination
  by (relation "measure (\<lambda>(E, sampindex, outputs, s). length outputs - sampindex)") auto

definition sound_stream_update ::
  "('fm, 'ad) parts \<Rightarrow> nat \<Rightarrow> ('fm, 'ad) y8950 \<Rightarrow> int list \<times> ('fm, 'ad) y8950" where
  "sound_stream_update E samples s = sound_stream_update_loop E 0 (replicate samples 0) s"

text \<open>
  Modelled from the spec: \<open>m_stream->update()\<close> has the device produce the samples that
  are due, through \<open>sound_stream_update\<close>, and appends them to the finalized ones.
\<close>

definition stream_update :: "('fm, 'ad) parts \<Rightarrow> ('fm, 'ad) y8950 \<Rightarrow> ('fm, 'ad) y8950" where
  "stream_update E s =
     (let (outputs, s') = sound_stream_update E (due (m_stream s)) s
      in s'\<lparr>m_stream := \<lparr>due = 0, produced = produced (m_stream s) @ outputs\<rparr>\<rparr>)"

text \<open>
  \<open>write\<close>, named \<open>write_y8950\<close> here since \<open>write\<close> is a keyword. The inner
  \<open>switch (m_address)\<close> is \<open>write_data\<close>; its cases stand in the order of the
  source. \<open>m_address - 0x07\<close> is computed on the promoted byte.
\<close>

definition write_data :: "('fm, 'ad) parts \<Rightarrow> u8 \<Rightarrow> ('fm, 'ad) y8950 \<Rightarrow> ('fm, 'ad) y8950" where
  "write_data E v s =
     (let a = m_address s in
      if a = 0x04 then
        (let mask = NOT v AND ALL_IRQS E;
             s1 = s\<lparr>m_irq_mask := mask\<rparr>;
             s2 = s1\<lparr>m_opl := opl_set_irq_mask E mask (m_opl s1)\<rparr>;
             s3 = s2\<lparr>m_opl := opl_write E a v (m_opl s2)\<rparr>
         in snd (combine_status E s3))
      else if a = 0x06 then s\<lparr>keyboard_written := keyboard_written s @ [v]\<rparr>
      else if a = 0x08 then
        (let s1 = s\<lparr>m_adpcm_b := adpcm_b_write E (ucast a - 0x07) (v AND 0x0f) (m_adpcm_b s)\<rparr>
         in s1\<lparr>m_opl := opl_write E a (v AND 0xc0) (m_opl s1)\<rparr>)
      else if a = 0x07 \<or> a = 0x0a \<or> a = 0x0b \<or> a = 0x0c \<or> a = 0x0d \<or> a = 0x0e \<or> a = 0x0f
              \<or> a = 0x10 \<or> a = 0x11 \<or> a = 0x12 \<or> a = 0x15 \<or> a = 0x16 \<or> a = 0x17
        then s\<lparr>m_adpcm_b := adpcm_b_write E (ucast a - 0x07) v (m_adpcm_b s)\<rparr>
      else if a = 0x18 then s\<lparr>m_io_ddr := v AND 0x0f\<rparr>
      else if a = 0x19 then s\<lparr>io_written := io_written s @ [v AND m_io_ddr s]\<rparr>
      else s\<lparr>m_opl := opl_write E a v (m_opl s)\<rparr>)"

definition write_y8950 :: "('fm, 'ad) parts \<Rightarrow> u32 \<Rightarrow> u8 \<Rightarrow> ('fm, 'ad) y8950 \<Rightarrow> ('fm, 'ad) y8950" where
  "write_y8950 E offset v s =
     (if offset AND 1 = 0 then s\<lparr>m_address := v\<rparr>
      else write_data E v (stream_update E s))"


section \<open>Instrumented engines\<close>

text \<open>
  A concrete pair of engines, for running the chip on concrete inputs: each engine logs
  the calls it receives, newest last. The FM engine holds a status byte that
  \<open>set_reset_status\<close> sets and clears, and adds \<open>fm_level\<close> to the accumulator on
  \<open>output\<close>; the ADPCM-B engine holds a status byte and a register file, and adds
  \<open>ad_level\<close> to the first cell of the buffer it is given. The quantization is the
  identity on these engines. The status constants get sample values: chip bits
  \<open>0x01\<close> (playing), \<open>0x08\<close> (BRDY) and \<open>0x10\<close> (EOS), and \<open>0x78\<close> for
  \<open>ALL_IRQS\<close>.
\<close>

datatype fm_call =
  Fm_set_irq_mask u8 | Fm_write u8 u8 | Fm_set_reset_status u8 u8 | Fm_clock u32 | Fm_output

record fm_mock =
  fm_status :: u8
  fm_level :: s32
  fm_calls :: "fm_call list"

datatype adpcm_call =
  Adpcm_read u32 | Adpcm_write u32 u8 | Adpcm_clock u32 | Adpcm_output

record adpcm_mock =
  ad_status :: u8
  ad_regs :: "u32 \<Rightarrow> u8"
  ad_level :: s32
  ad_calls :: "adpcm_call list"

definition mock :: "(fm_mock, adpcm_mock) parts" where
  "mock =
     \<lparr>ALL_IRQS = 0x78,
      STATUS_ADPCM_B_EOS = 0x10,
      STATUS_ADPCM_B_BRDY = 0x08,
      STATUS_ADPCM_B_PLAYING = 0x01,
      channel_STATUS_EOS = 0x01,
      channel_STATUS_BRDY = 0x02,
      channel_STATUS_PLAYING = 0x04,
      ymfm_roundtrip_fp = (\<lambda>v. v),
      m_keyboard_read_handler = (\<lambda>_. 0x5a),
      m_io_read_handler = (\<lambda>_. 0xa5),
      opl_status = fm_status,
      opl_set_reset_status = (\<lambda>set reset fm.
        fm\<lparr>fm_status := (fm_status fm OR set) AND NOT reset,
           fm_calls := fm_calls fm @ [Fm_set_reset_status set reset]\<rparr>),
      opl_set_irq_mask = (\<lambda>m fm. fm\<lparr>fm_calls := fm_calls fm @ [Fm_set_irq_mask m]\<rparr>),
      opl_write = (\<lambda>r v fm. fm\<lparr>fm_calls := fm_calls fm @ [Fm_write r v]\<rparr>),
      opl_clock = (\<lambda>c fm. fm\<lparr>fm_calls := fm_calls fm @ [Fm_clock c]\<rparr>),
      opl_output = (\<lambda>acc rshift clipmax chanmask fm.
        (acc + fm_level fm, fm\<lparr>fm_calls := fm_calls fm @ [Fm_output]\<rparr>)),
      adpcm_b_status = (\<lambda>_. ad_status),
      adpcm_b_read = (\<lambda>r ad. (ad_regs ad r, ad\<lparr>ad_calls := ad_calls ad @ [Adpcm_read r]\<rparr>)),
      adpcm_b_write = (\<lambda>r v ad. ad\<lparr>ad_calls := ad_calls ad @ [Adpcm_write r v]\<rparr>),
      adpcm_b_clock = (\<lambda>c ad. ad\<lparr>ad_calls := ad_calls ad @ [Adpcm_clock c]\<rparr>),
      adpcm_b_output = (\<lambda>buf rshift chanmask ad.
        (case buf of [] \<Rightarrow> [] | x # xs \<Rightarrow> (x + ad_level ad) # xs,
         ad\<lparr>ad_calls := ad_calls ad @ [Adpcm_output]\<rparr>))\<rparr>"

text \<open>
  A chip at rest on these engines: FM status \<open>fs\<close>, ADPCM-B status \<open>as\<close>, the FM
  engine putting out \<open>fl\<close> and the ADPCM-B engine \<open>al\<close>, register \<open>2\<close> of the
  ADPCM-B engine holding \<open>0x42\<close>, all other registers 0.
\<close>

definition mock_chip :: "u8 \<Rightarrow> u8 \<Rightarrow> s32 \<Rightarrow> s32 \<Rightarrow> (fm_mock, adpcm_mock) y8950" where
  "mock_chip fs as fl al =
     \<lparr>m_address = 0, m_io_ddr = 0, m_irq_mask = 0x78,
      m_stream = \<lparr>due = 0, produced = []\<rparr>,
      m_opl = \<lparr>fm_status = fs, fm_level = fl, fm_calls = []\<rparr>,
      m_adpcm_b = \<lparr>ad_status = as, ad_regs = (\<lambda>r. if r = 2 then 0x42 else 0),
                   ad_level = al, ad_calls = []\<rparr>,
      sums = [0, 0], keyboard_written = [], io_written = []\<rparr>"


section \<open>Properties of the keyboard\<close>

declare bus_r_loop.simps [simp del]

lemma BIT_of_bool: "BIT x n = of_bool (bit x n)"
  by (simp add: BIT_def and_one_eq mod_2_eq_odd bit_iff_odd_drop_bit)

lemma BIT_eq_0_iff: "BIT x n = 0 \<longleftrightarrow> \<not> bit x n"
  by (simp add: BIT_of_bool)

lemma word_eq_bitI: "(\<And>n. bit a n = bit b n) \<Longrightarrow> a = b"
  by (simp add: bit_eq_iff)

lemma bit_ff: "bit (0xff::u8) n \<longleftrightarrow> n < 8"
proof -
  have h: "(0xff::u8) = mask 8" by (simp add: mask_eq_exp_minus_1)
  show ?thesis unfolding h bit_mask_iff by simp
qed

lemma low_byte_mask: "(0x00ff::u16) = mask 8"
  by (simp add: mask_eq_exp_minus_1)

lemma high_rows_mask: "(0x0300::u16) = push_bit 8 (mask 2)"
  by (simp add: mask_eq_exp_minus_1)

lemma two_bits_mask: "(0x03::u8) = mask 2"
  by (simp add: mask_eq_exp_minus_1)

subsection \<open>The column read\<close>

lemma upto_split:
  assumes "i < m"
  shows "(\<forall>k. i \<le> k \<and> k < m \<and> Q k \<longrightarrow> P k) \<longleftrightarrow>
         ((Q i \<longrightarrow> P i) \<and> (\<forall>k. Suc i \<le> k \<and> k < m \<and> Q k \<longrightarrow> P k))"
proof -
  have "\<And>k. i \<le> k \<longleftrightarrow> k = i \<or> Suc i \<le> k" by auto
  then show ?thesis using assms by auto
qed

text \<open>
  The loop invariant: a bit survives the loop from index \<open>i\<close> when it is set in the
  running result and in every selected row from \<open>i\<close> on.
\<close>

lemma bus_r_loop_bit:
  "bit (bus_r_loop rows rd i res) n \<longleftrightarrow>
     bit res n \<and> (\<forall>k. i \<le> k \<and> k < m_rows_size \<and> \<not> bit rd k \<longrightarrow> bit (rows k) n)"
proof (induction rows rd i res rule: bus_r_loop.induct)
  case (1 rows rd i res)
  show ?case
  proof (cases "m_rows_size > i")
    case True
    show ?thesis
      apply (subst bus_r_loop.simps)
      apply (subst upto_split [OF True])
      using True 1 [OF True]
      apply (simp add: BIT_eq_0_iff bit_and_iff)
      done
  next
    case False
    then show ?thesis by (subst bus_r_loop.simps) auto
  qed
qed

lemma bus_r_bit:
  "bit (bus_r m_rows s) n \<longleftrightarrow>
     n < 8 \<and> (\<forall>i. i < 10 \<and> \<not> bit (m_row_drive s) i \<longrightarrow> bit (m_rows i) n)"
  unfolding bus_r_def bus_r_loop_bit bit_ff m_rows_size_def by simp

text \<open>
  Claim C5. For every row drive and every ten row snapshots, \<open>bus_r\<close> returns the
  bitwise AND of exactly the rows whose bit in \<open>m_row_drive\<close> is clear: bit \<open>n\<close> of
  the result is set if and only if it is set in each of those rows. With no row bit
  clear the result is \<open>0xff\<close>; with exactly row \<open>i\<close> selected it is that row's
  snapshot; with exactly rows \<open>i\<close> and \<open>j\<close> selected it is the AND of the two.
  \<open>bus_r\<close> returns a byte only: it reads the state and the rows and changes neither.
\<close>

theorem bus_r_and_of_selected_rows:
  "(\<forall>n. bit (bus_r m_rows s) n \<longleftrightarrow>
         n < 8 \<and> (\<forall>i. i < 10 \<and> \<not> bit (m_row_drive s) i \<longrightarrow> bit (m_rows i) n))
   \<and> ((\<forall>i<10. bit (m_row_drive s) i) \<longrightarrow> bus_r m_rows s = 0xff)
   \<and> (\<forall>i<10. (\<forall>k<10. (\<not> bit (m_row_drive s) k) = (k = i)) \<longrightarrow> bus_r m_rows s = m_rows i)
   \<and> (\<forall>i<10. \<forall>j<10. i \<noteq> j \<and> (\<forall>k<10. (\<not> bit (m_row_drive s) k) = (k = i \<or> k = j))
         \<longrightarrow> bus_r m_rows s = m_rows i AND m_rows j)"
proof (intro conjI allI impI)
  fix n
  show "bit (bus_r m_rows s) n \<longleftrightarrow>
         n < 8 \<and> (\<forall>i. i < 10 \<and> \<not> bit (m_row_drive s) i \<longrightarrow> bit (m_rows i) n)"
    by (rule bus_r_bit)
next
  assume none: "\<forall>i<10. bit (m_row_drive s) i"
  have "bit (bus_r m_rows s) n = bit (0xff::u8) n" for n
    unfolding bus_r_bit bit_ff using none by blast
  then show "bus_r m_rows s = 0xff"
    by (rule word_eq_bitI)
next
  fix i :: nat
  assume i: "i < 10" and sel: "\<forall>k<10. (\<not> bit (m_row_drive s) k) = (k = i)"
  have "bit (bus_r m_rows s) n = bit (m_rows i) n" for n
    unfolding bus_r_bit using i sel bit_imp_le_length [of "m_rows i" n] by auto
  then show "bus_r m_rows s = m_rows i"
    by (rule word_eq_bitI)
next
  fix i j :: nat
  assume i: "i < 10" and j: "j < 10"
    and sel: "i \<noteq> j \<and> (\<forall>k<10. (\<not> bit (m_row_drive s) k) = (k = i \<or> k = j))"
  have "bit (bus_r m_rows s) n = bit (m_rows i AND m_rows j) n" for n
    unfolding bus_r_bit bit_and_iff using i j sel bit_imp_le_length [of "m_rows i" n] by auto
  then show "bus_r m_rows s = m_rows i AND m_rows j"
    by (rule word_eq_bitI)
qed

text \<open>
  Claim C5 on concrete rows (row 0 reads \<open>0xf0\<close>, row 2 reads \<open>0x3c\<close>, the others
  \<open>0xff\<close>): with no row selected, with row 0 alone, and with rows 0 and 2.
\<close>

theorem bus_r_and_of_selected_rows_witness:
  "bus_r (\<lambda>i. if i = 0 then 0xf0 else if i = 2 then 0x3c else 0xff) device_start = 0xff
   \<and> bus_r (\<lambda>i. if i = 0 then 0xf0 else if i = 2 then 0x3c else 0xff)
        (device_start\<lparr>m_row_drive := 0x3fe\<rparr>) = 0xf0
   \<and> bus_r (\<lambda>i. if i = 0 then 0xf0 else if i = 2 then 0x3c else 0xff)
        (device_start\<lparr>m_row_drive := 0x3fa\<rparr>) = 0x30"
proof -
  let ?R = "\<lambda>i::nat. if i = 0 then 0xf0 else if i = 2 then 0x3c else (0xff::u8)"
  have none: "\<forall>i<10. bit (m_row_drive device_start) i"
    by (simp add: device_start_def All_less_Suc eval_nat_numeral)
  have one: "(0::nat) < 10
      \<and> (\<forall>k<10. (\<not> bit (m_row_drive (device_start\<lparr>m_row_drive := 0x3fe\<rparr>)) k) = (k = 0))"
    by (simp add: All_less_Suc eval_nat_numeral)
  have two: "(0::nat) < 10 \<and> (2::nat) < 10 \<and> (0::nat) \<noteq> 2
      \<and> (\<forall>k<10. (\<not> bit (m_row_drive (device_start\<lparr>m_row_drive := 0x3fa\<rparr>)) k)
                  = (k = 0 \<or> k = 2))"
    by (simp add: All_less_Suc eval_nat_numeral)
  have "bus_r ?R device_start = 0xff"
    using bus_r_and_of_selected_rows [of ?R device_start] none by blast
  moreover have "bus_r ?R (device_start\<lparr>m_row_drive := 0x3fe\<rparr>) = ?R 0"
    using bus_r_and_of_selected_rows [of ?R "device_start\<lparr>m_row_drive := 0x3fe\<rparr>"] one
    by blast
  moreover have "bus_r ?R (device_start\<lparr>m_row_drive := 0x3fa\<rparr>) = ?R 0 AND ?R 2"
    using bus_r_and_of_selected_rows [of ?R "device_start\<lparr>m_row_drive := 0x3fa\<rparr>"] two
    by blast
  ultimately show ?thesis by simp
qed

subsection \<open>The port writes\<close>

lemma p2_w_row_drive:
  "m_row_drive (snd (p2_w data s)) =
     (m_row_drive s AND 0x00ff) OR push_bit 8 (ucast (data AND 0x03))"
  by (simp add: p2_w_def Let_def split: prod.splits)

text \<open>
  Claim C6. For every state and every byte written to port 2, the calls that \<open>p2_w\<close>
  makes are: \<open>write_clock\<close> exactly when bit 6 of the byte differs from
  \<open>m_host_clock_out\<close>, then \<open>write_data\<close> exactly when bit 7 differs from
  \<open>m_host_data_out\<close>, each with the new level; the clock call comes first when both
  are made, and no call is made when neither bit differs. Afterwards the two members
  hold bit 6 and bit 7.
\<close>

theorem p2_w_line_events:
  "fst (p2_w data s) =
     (if BIT data 6 \<noteq> m_host_clock_out s then [Write_clock (BIT data 6)] else []) @
     (if BIT data 7 \<noteq> m_host_data_out s then [Write_data (BIT data 7)] else [])
   \<and> m_host_clock_out (snd (p2_w data s)) = BIT data 6
   \<and> m_host_data_out (snd (p2_w data s)) = BIT data 7"
  by (simp add: p2_w_def Let_def split: prod.splits)

text \<open>
  Claim C10. \<open>p1_w\<close> keeps bits 8 and 9 of \<open>m_row_drive\<close> and sets bits 0 to 7 to
  the byte written; it leaves the three line members alone. \<open>p2_w\<close> keeps bits 0 to 7
  of \<open>m_row_drive\<close> and sets bits 8 and 9 from bits 0 and 1 of the byte written.
  (Bits 10 to 15 of the 16-bit member are no rows; they are 0 from \<open>device_start\<close>
  on.)
\<close>

theorem row_drive_frame:
  "m_row_drive (p1_w data s) AND 0x0300 = m_row_drive s AND 0x0300
   \<and> m_row_drive (p1_w data s) AND 0x00ff = ucast data
   \<and> m_host_clock_out (p1_w data s) = m_host_clock_out s
   \<and> m_host_data_out (p1_w data s) = m_host_data_out s
   \<and> m_host_data_in (p1_w data s) = m_host_data_in s
   \<and> m_row_drive (snd (p2_w data s)) AND 0x00ff = m_row_drive s AND 0x00ff
   \<and> m_row_drive (snd (p2_w data s)) AND 0x0300 = push_bit 8 (ucast (data AND 0x03))"
proof (intro conjI)
  show "m_row_drive (p1_w data s) AND 0x0300 = m_row_drive s AND 0x0300"
    unfolding p1_w_def high_rows_mask
    by (rule bit_word_eqI) (auto simp add: bit_simps dest: bit_imp_le_length)
  show "m_row_drive (p1_w data s) AND 0x00ff = ucast data"
    unfolding p1_w_def high_rows_mask low_byte_mask
    by (rule bit_word_eqI) (auto simp add: bit_simps dest: bit_imp_le_length)
  show "m_row_drive (snd (p2_w data s)) AND 0x00ff = m_row_drive s AND 0x00ff"
    unfolding p2_w_row_drive low_byte_mask
    by (rule bit_word_eqI) (auto simp add: bit_simps)
  show "m_row_drive (snd (p2_w data s)) AND 0x0300 = push_bit 8 (ucast (data AND 0x03))"
    unfolding p2_w_row_drive low_byte_mask high_rows_mask two_bits_mask
    by (rule bit_word_eqI) (auto simp add: bit_simps)
qed (simp_all add: p1_w_def)

text \<open>Bits 10 to 15 of \<open>m_row_drive\<close> are clear at the start and after each port write.\<close>

lemma row_drive_ten_bits:
  "m_row_drive device_start AND 0xfc00 = 0"
  "m_row_drive (p1_w data s) AND 0xfc00 = 0"
  "m_row_drive (snd (p2_w data s)) AND 0xfc00 = 0"
proof -
  have m: "(0xfc00::u16) = push_bit 10 (mask 6)"
    by (simp add: mask_eq_exp_minus_1)
  show "m_row_drive device_start AND 0xfc00 = 0"
    by (simp add: device_start_def)
  show "m_row_drive (p1_w data s) AND 0xfc00 = 0"
    unfolding p1_w_def high_rows_mask m
    by (rule bit_word_eqI) (auto simp add: bit_simps dest: bit_imp_le_length)
  show "m_row_drive (snd (p2_w data s)) AND 0xfc00 = 0"
    unfolding p2_w_row_drive low_byte_mask two_bits_mask m
    by (rule bit_word_eqI) (auto simp add: bit_simps)
qed

subsection \<open>The host data line\<close>

lemma update_host_data_level: "(m_host_data_in (update_host_data p s) = 0) = (p = 0)"
  by (simp add: update_host_data_def)

lemma host_data_r_high: "host_data_r s = 1 \<longleftrightarrow> m_host_data_in s = 0"
proof
  assume "host_data_r s = 1"
  then have "(m_host_data_in s XOR 1) XOR 1 = 1 XOR 1"
    by (simp only: host_data_r_def)
  then show "m_host_data_in s = 0"
    by (simp add: xor.assoc)
next
  assume "m_host_data_in s = 0"
  then show "host_data_r s = 1" by (simp add: host_data_r_def)
qed

lemma run_timers_append:
  "run_timers (ps @ qs) s = run_timers ps s @ run_timers qs (last (s # run_timers ps s))"
  by (induction ps arbitrary: s) auto

lemma run_timers_snoc_last:
  "last (s # run_timers (ps @ [p]) s) = update_host_data p (last (s # run_timers ps s))"
  by (induction ps arbitrary: s) auto

lemma run_timers_levels:
  "map (\<lambda>d. host_data_r d = 1) (run_timers ps s) = map (\<lambda>p. p = 0) ps"
  by (induction ps arbitrary: s) (auto simp: host_data_r_high update_host_data_level)

text \<open>
  Claim C7. \<open>data_w\<close> does not touch the device: it only queues the level. Two calls
  queue their levels behind what is already pending, the first before the second. At
  the synchronization point the events are applied in that order: the levels that
  \<open>host_data_r\<close> shows after each event are those of the pending events, then of the
  first call, then of the second (the line is inverted on report, so it reads 1 for a
  level of 0); once the queue is empty the line shows the second call's level.
\<close>

theorem data_w_deferred_fifo:
  "device (data_w a m) = device m
   \<and> timers (data_w b (data_w a m)) = timers m @ [a, b]
   \<and> map (\<lambda>d. host_data_r d = 1) (synchronize_trace (data_w b (data_w a m)))
       = map (\<lambda>p. p = 0) (timers m) @ [a = 0, b = 0]
   \<and> (host_data_r (device (synchronize_point (data_w b (data_w a m)))) = 1) = (b = 0)"
proof (intro conjI)
  show "map (\<lambda>d. host_data_r d = 1) (synchronize_trace (data_w b (data_w a m)))
       = map (\<lambda>p. p = 0) (timers m) @ [a = 0, b = 0]"
    by (simp add: synchronize_trace_def data_w_def run_timers_levels)
  have "last (device m # synchronize_trace (data_w b (data_w a m)))
      = update_host_data b (last (device m # run_timers (timers m @ [a]) (device m)))"
    using run_timers_snoc_last [of "device m" "timers m @ [a]" b]
    by (simp add: synchronize_trace_def data_w_def)
  moreover have "device (data_w b (data_w a m)) = device m"
    by (simp add: data_w_def)
  ultimately show "(host_data_r (device (synchronize_point (data_w b (data_w a m)))) = 1) = (b = 0)"
    by (simp only: synchronize_point_def machine.simps host_data_r_high update_host_data_level)
qed (simp_all add: data_w_def)


section \<open>Properties of the sound chip\<close>

declare sound_stream_update_loop.simps [simp del]

subsection \<open>What the stream update leaves alone\<close>

lemma sample_frame:
  "m_address (snd (sound_stream_update_sample E s)) = m_address s"
  "m_io_ddr (snd (sound_stream_update_sample E s)) = m_io_ddr s"
  "m_irq_mask (snd (sound_stream_update_sample E s)) = m_irq_mask s"
  "m_stream (snd (sound_stream_update_sample E s)) = m_stream s"
  "keyboard_written (snd (sound_stream_update_sample E s)) = keyboard_written s"
  "io_written (snd (sound_stream_update_sample E s)) = io_written s"
  by (simp_all add: sound_stream_update_sample_def Let_def split: prod.splits)

lemma loop_preserves:
  assumes "\<And>s. f (snd (sound_stream_update_sample E s)) = f s"
  shows "f (snd (sound_stream_update_loop E i outs s)) = f s"
  using assms
proof (induction E i outs s rule: sound_stream_update_loop.induct)
  case (1 E sampindex outputs s)
  note pres = "1.prems"
  show ?case
  proof (cases "sampindex < length outputs")
    case True
    obtain v s' where step: "sound_stream_update_sample E s = (v, s')"
      by (cases "sound_stream_update_sample E s")
    have "sound_stream_update_loop E sampindex outputs s =
          sound_stream_update_loop E (Suc sampindex) (outputs[sampindex := v]) s'"
      by (subst sound_stream_update_loop.simps) (simp add: True step)
    moreover have
      "f (snd (sound_stream_update_loop E (Suc sampindex) (outputs[sampindex := v]) s')) = f s'"
      using "1.IH" [OF True step [symmetric] refl] pres by simp
    moreover have "f s' = f s"
      using pres [of s] by (simp add: step)
    ultimately show ?thesis by simp
  next
    case False
    then show ?thesis by (subst sound_stream_update_loop.simps) simp
  qed
qed

lemma loop_frame:
  "m_address (snd (sound_stream_update_loop E i outs s)) = m_address s"
  "m_io_ddr (snd (sound_stream_update_loop E i outs s)) = m_io_ddr s"
  "m_irq_mask (snd (sound_stream_update_loop E i outs s)) = m_irq_mask s"
  "m_stream (snd (sound_stream_update_loop E i outs s)) = m_stream s"
  "keyboard_written (snd (sound_stream_update_loop E i outs s)) = keyboard_written s"
  "io_written (snd (sound_stream_update_loop E i outs s)) = io_written s"
  by (rule loop_preserves, simp add: sample_frame)+

lemma stream_update_frame:
  "m_address (stream_update E s) = m_address s"
  "m_io_ddr (stream_update E s) = m_io_ddr s"
  "m_irq_mask (stream_update E s) = m_irq_mask s"
  "keyboard_written (stream_update E s) = keyboard_written s"
  "io_written (stream_update E s) = io_written s"
  "m_stream (stream_update E s) =
     \<lparr>due = 0, produced = produced (m_stream s) @ fst (sound_stream_update E (due (m_stream s)) s)\<rparr>"
  using loop_frame [of E 0 "replicate (due (m_stream s)) 0" s]
  by (simp_all add: stream_update_def sound_stream_update_def split_beta)

lemma sound_stream_update_0: "sound_stream_update E 0 s = ([], s)"
  by (simp add: sound_stream_update_def sound_stream_update_loop.simps)

lemma stream_update_idem: "stream_update E (stream_update E s) = stream_update E s"
proof -
  have "due (m_stream (stream_update E s)) = 0"
    by (simp add: stream_update_frame)
  then show ?thesis
    by (subst stream_update_def) (simp add: sound_stream_update_0 stream_update_frame)
qed

lemma combine_status_stream: "m_stream (snd (combine_status E s)) = m_stream s"
  by (simp add: combine_status_def Let_def)

lemma write_data_stream: "m_stream (write_data E v s) = m_stream s"
  by (simp add: write_data_def Let_def combine_status_stream)

text \<open>Running the chip on the instrumented engines.\<close>

lemmas mock_eval = mock_def mock_chip_def read_def write_y8950_def write_data_def
  combine_status_def stream_update_def sound_stream_update_def sound_stream_update_loop.simps
  sound_stream_update_sample_def put_int_clamp_def


subsection \<open>The status port\<close>

text \<open>
  Claim C1. A read at an even offset returns the FM engine's status, ORed with the
  chip's EOS, BRDY and PLAYING bits for those of the three flags that the ADPCM-B engine
  reports, and ANDed with \<open>m_irq_mask\<close>: whatever the mask and the raw combination
  are, the byte is their AND. The same byte is fed back to the FM engine by
  \<open>set_reset_status\<close> (the byte to set, its complement to reset), and nothing else
  of the state changes.
\<close>

theorem read_status_combined_masked:
  assumes "offset AND 1 = 0"
  shows "fst (read E offset s) =
           (opl_status E (m_opl s)
            OR (if adpcm_b_status E 0 (m_adpcm_b s) AND channel_STATUS_EOS E \<noteq> 0
                then STATUS_ADPCM_B_EOS E else 0)
            OR (if adpcm_b_status E 0 (m_adpcm_b s) AND channel_STATUS_BRDY E \<noteq> 0
                then STATUS_ADPCM_B_BRDY E else 0)
            OR (if adpcm_b_status E 0 (m_adpcm_b s) AND channel_STATUS_PLAYING E \<noteq> 0
                then STATUS_ADPCM_B_PLAYING E else 0))
           AND m_irq_mask s
         \<and> snd (read E offset s) =
             s\<lparr>m_opl := opl_set_reset_status E (fst (read E offset s))
                          (NOT (fst (read E offset s))) (m_opl s)\<rparr>"
  using assms
  by (simp add: read_def combine_status_def Let_def or.assoc)

text \<open>
  Claim C1 on the instrumented engines: FM status \<open>0x40\<close> and the ADPCM-B engine
  reporting EOS give \<open>0x50\<close> under the mask \<open>0x78\<close> and \<open>0x10\<close> under the mask
  \<open>0x38\<close>; the FM engine receives the byte and its complement.
\<close>

theorem read_status_combined_masked_witness:
  "(0::u32) AND 1 = 0
   \<and> fst (read mock 0 (mock_chip 0x40 0x01 0 0)) = 0x50
   \<and> fst (read mock 0 ((mock_chip 0x40 0x01 0 0)\<lparr>m_irq_mask := 0x38\<rparr>)) = 0x10
   \<and> fm_calls (m_opl (snd (read mock 0 (mock_chip 0x40 0x01 0 0))))
       = [Fm_set_reset_status 0x50 0xaf]"
  using read_status_combined_masked [where offset = 0 and E = mock
      and s = "mock_chip 0x40 0x01 0 0"]
    read_status_combined_masked [where offset = 0 and E = mock
      and s = "(mock_chip 0x40 0x01 0 0)\<lparr>m_irq_mask := 0x38\<rparr>"]
  by (simp add: mock_eval)

subsection \<open>The data port, written\<close>

lemma adpcm_b_low_range:
  "(a::u8) \<in> {0x0a..0x12} \<longleftrightarrow> a \<in> {0x0a, 0x0b, 0x0c, 0x0d, 0x0e, 0x0f, 0x10, 0x11, 0x12}"
  apply (simp add: word_le_nat_alt word_unat_eq_iff)
  apply arith
  done

lemma adpcm_b_high_range: "(a::u8) \<in> {0x15..0x17} \<longleftrightarrow> a \<in> {0x15, 0x16, 0x17}"
  apply (simp add: word_le_nat_alt word_unat_eq_iff)
  apply arith
  done

text \<open>
  Claim C2, as the source has it. A write at an odd offset first brings the stream up
  to date (\<open>s1\<close>) and then routes the byte \<open>v\<close> by the latched address \<open>a\<close>:
  \<^item> \<open>0x04\<close>: \<open>m_irq_mask\<close> becomes the inverted byte within \<open>ALL_IRQS\<close>; the FM
    engine gets the mask and then the register write, and the status is recombined;
  \<^item> \<open>0x06\<close>: the byte goes to the keyboard write handler;
  \<^item> \<open>0x08\<close>: the low nibble goes to ADPCM-B register \<open>0x01\<close>, and \<open>v AND 0xc0\<close> to
    FM register \<open>0x08\<close>;
  \<^item> \<open>0x07\<close>, \<open>0x0a\<close> to \<open>0x12\<close> and \<open>0x15\<close> to \<open>0x17\<close>: the byte goes to the
    ADPCM-B register \<open>a - 0x07\<close>;
  \<^item> \<open>0x18\<close>: \<open>m_io_ddr\<close> becomes the low four bits;
  \<^item> \<open>0x19\<close>: \<open>v AND m_io_ddr\<close> goes to the I/O write handler;
  \<^item> every other address but \<open>0x09\<close>, with \<open>0x13\<close> and \<open>0x14\<close> among them: the
    byte goes unchanged to the FM register \<open>a\<close>.
  In each case the rest of the state is as the stream update left it. Address \<open>0x09\<close>
  is left out of the table: the \<open>switch\<close> of \<open>write\<close> has no label for it, so it
  takes the default case (lemma \<open>write_data_port_0x09\<close> below), while \<open>read\<close> treats
  \<open>0x09\<close> as an address of the ADPCM-B engine.
\<close>

theorem write_data_port_routing:
  assumes "offset AND 1 = 1" and "s1 = stream_update E s" and "a = m_address s"
  shows
    "(a = 0x04 \<longrightarrow> write_y8950 E offset v s =
        snd (combine_status E
          (s1\<lparr>m_irq_mask := NOT v AND ALL_IRQS E,
              m_opl := opl_write E 0x04 v
                         (opl_set_irq_mask E (NOT v AND ALL_IRQS E) (m_opl s1))\<rparr>)))
     \<and> (a = 0x06 \<longrightarrow> write_y8950 E offset v s =
          s1\<lparr>keyboard_written := keyboard_written s1 @ [v]\<rparr>)
     \<and> (a = 0x08 \<longrightarrow> write_y8950 E offset v s =
          s1\<lparr>m_adpcm_b := adpcm_b_write E 0x01 (v AND 0x0f) (m_adpcm_b s1),
             m_opl := opl_write E 0x08 (v AND 0xc0) (m_opl s1)\<rparr>)
     \<and> (a = 0x07 \<or> a \<in> {0x0a..0x12} \<or> a \<in> {0x15..0x17} \<longrightarrow>
          write_y8950 E offset v s =
          s1\<lparr>m_adpcm_b := adpcm_b_write E (ucast a - 0x07) v (m_adpcm_b s1)\<rparr>)
     \<and> (a = 0x18 \<longrightarrow> write_y8950 E offset v s = s1\<lparr>m_io_ddr := v AND 0x0f\<rparr>)
     \<and> (a = 0x19 \<longrightarrow> write_y8950 E offset v s =
          s1\<lparr>io_written := io_written s1 @ [v AND m_io_ddr s]\<rparr>)
     \<and> (a \<notin> {0x04, 0x06, 0x07, 0x08, 0x09, 0x18, 0x19} \<union> {0x0a..0x12} \<union> {0x15..0x17}
          \<longrightarrow> write_y8950 E offset v s = s1\<lparr>m_opl := opl_write E a v (m_opl s1)\<rparr>)"
proof -
  have w: "write_y8950 E offset v s = write_data E v s1"
    using assms by (simp add: write_y8950_def)
  have a: "m_address s1 = a" and d: "m_io_ddr s1 = m_io_ddr s"
    using assms by (simp_all add: stream_update_frame)
  show ?thesis
    unfolding w Un_iff adpcm_b_low_range adpcm_b_high_range
    by (intro conjI impI) (auto simp add: write_data_def Let_def a d)
qed

text \<open>
  Claim C2 as amended, on the instrumented engines: one write for each row of the
  table, at addresses \<open>0x04\<close>, \<open>0x06\<close>, \<open>0x08\<close>, \<open>0x10\<close>, \<open>0x18\<close>, \<open>0x19\<close> (with
  \<open>m_io_ddr = 0x05\<close>) and \<open>0x20\<close>.
\<close>

theorem write_data_port_routing_witness:
  "(1::u32) AND 1 = 1
   \<and> m_irq_mask (write_y8950 mock 1 0x3f ((mock_chip 0x40 0x01 0 0)\<lparr>m_address := 0x04\<rparr>)) = 0x40
   \<and> fm_calls (m_opl (write_y8950 mock 1 0x3f ((mock_chip 0x40 0x01 0 0)\<lparr>m_address := 0x04\<rparr>)))
       = [Fm_set_irq_mask 0x40, Fm_write 0x04 0x3f, Fm_set_reset_status 0x40 0xbf]
   \<and> keyboard_written (write_y8950 mock 1 0x12 ((mock_chip 0x40 0x01 0 0)\<lparr>m_address := 0x06\<rparr>))
       = [0x12]
   \<and> ad_calls (m_adpcm_b (write_y8950 mock 1 0xff ((mock_chip 0x40 0x01 0 0)\<lparr>m_address := 0x08\<rparr>)))
       = [Adpcm_write 0x01 0x0f]
   \<and> fm_calls (m_opl (write_y8950 mock 1 0xff ((mock_chip 0x40 0x01 0 0)\<lparr>m_address := 0x08\<rparr>)))
       = [Fm_write 0x08 0xc0]
   \<and> ad_calls (m_adpcm_b (write_y8950 mock 1 0x77 ((mock_chip 0x40 0x01 0 0)\<lparr>m_address := 0x10\<rparr>)))
       = [Adpcm_write 0x09 0x77]
   \<and> m_io_ddr (write_y8950 mock 1 0xff ((mock_chip 0x40 0x01 0 0)\<lparr>m_address := 0x18\<rparr>)) = 0x0f
   \<and> io_written (write_y8950 mock 1 0xff
        ((mock_chip 0x40 0x01 0 0)\<lparr>m_address := 0x19, m_io_ddr := 0x05\<rparr>)) = [0x05]
   \<and> fm_calls (m_opl (write_y8950 mock 1 0x99 ((mock_chip 0x40 0x01 0 0)\<lparr>m_address := 0x20\<rparr>)))
       = [Fm_write 0x20 0x99]"
  using
    write_data_port_routing [OF _ refl refl, where offset = 1 and E = mock and v = "0x3f"
        and s = "(mock_chip 0x40 0x01 0 0)\<lparr>m_address := 0x04\<rparr>"]
    write_data_port_routing [OF _ refl refl, where offset = 1 and E = mock and v = "0x12"
        and s = "(mock_chip 0x40 0x01 0 0)\<lparr>m_address := 0x06\<rparr>"]
    write_data_port_routing [OF _ refl refl, where offset = 1 and E = mock and v = "0xff"
        and s = "(mock_chip 0x40 0x01 0 0)\<lparr>m_address := 0x08\<rparr>"]
    write_data_port_routing [OF _ refl refl, where offset = 1 and E = mock and v = "0x77"
        and s = "(mock_chip 0x40 0x01 0 0)\<lparr>m_address := 0x10\<rparr>"]
    write_data_port_routing [OF _ refl refl, where offset = 1 and E = mock and v = "0xff"
        and s = "(mock_chip 0x40 0x01 0 0)\<lparr>m_address := 0x18\<rparr>"]
    write_data_port_routing [OF _ refl refl, where offset = 1 and E = mock and v = "0xff"
        and s = "(mock_chip 0x40 0x01 0 0)\<lparr>m_address := 0x19, m_io_ddr := 0x05\<rparr>"]
    write_data_port_routing [OF _ refl refl, where offset = 1 and E = mock and v = "0x99"
        and s = "(mock_chip 0x40 0x01 0 0)\<lparr>m_address := 0x20\<rparr>"]
  by (simp add: mock_eval)

text \<open>
  Claim C2 as stated fails: the addresses routed to the ADPCM-B engine are not one
  contiguous range. On the instrumented engines, a write of \<open>0x55\<close> at address
  \<open>0x12\<close> and one at \<open>0x15\<close> reach the ADPCM-B engine (registers \<open>0x0b\<close> and
  \<open>0x0e\<close>), while the same write at \<open>0x13\<close>, between the two, reaches the FM
  engine and not the ADPCM-B engine.
\<close>

theorem adpcm_b_addresses_not_contiguous:
  "ad_calls (m_adpcm_b (write_y8950 mock 1 0x55 ((mock_chip 0 0 0 0)\<lparr>m_address := 0x12\<rparr>)))
     = [Adpcm_write 0x0b 0x55]
   \<and> ad_calls (m_adpcm_b (write_y8950 mock 1 0x55 ((mock_chip 0 0 0 0)\<lparr>m_address := 0x13\<rparr>)))
     = []
   \<and> fm_calls (m_opl (write_y8950 mock 1 0x55 ((mock_chip 0 0 0 0)\<lparr>m_address := 0x13\<rparr>)))
     = [Fm_write 0x13 0x55]
   \<and> ad_calls (m_adpcm_b (write_y8950 mock 1 0x55 ((mock_chip 0 0 0 0)\<lparr>m_address := 0x15\<rparr>)))
     = [Adpcm_write 0x0e 0x55]"
  by (simp add: mock_eval)

text \<open>What the source does at address \<open>0x09\<close>: the default case.\<close>

lemma write_data_port_0x09:
  assumes "offset AND 1 = 1" and "m_address s = 0x09"
  shows "write_y8950 E offset v s =
           (stream_update E s)\<lparr>m_opl := opl_write E 0x09 v (m_opl (stream_update E s))\<rparr>"
  using assms by (simp add: write_y8950_def write_data_def stream_update_frame)

text \<open>
  Claim C8. A write at an odd offset is the dispatch of the byte on the state that the
  stream update leaves, so it is the same as updating the stream first and writing then.
  The stream after the write is the stream after the update alone: no sample is due any
  more, and the samples finalized are the earlier ones followed by those that
  \<open>sound_stream_update\<close> computes from the state before the write, whatever byte is
  written.
\<close>

theorem write_flushes_stream_first:
  assumes "offset AND 1 = 1"
  shows "write_y8950 E offset v s = write_data E v (stream_update E s)
         \<and> write_y8950 E offset v s = write_y8950 E offset v (stream_update E s)
         \<and> m_stream (write_y8950 E offset v s) = m_stream (stream_update E s)
         \<and> due (m_stream (write_y8950 E offset v s)) = 0
         \<and> produced (m_stream (write_y8950 E offset v s)) =
             produced (m_stream s) @ fst (sound_stream_update E (due (m_stream s)) s)"
  using assms
  by (simp add: write_y8950_def stream_update_idem write_data_stream stream_update_frame)

text \<open>
  Claim C8 on the instrumented engines, with one sample finalized and two due, the FM
  engine putting out 100: the write of \<open>0x99\<close> to FM register \<open>0x20\<close> finalizes the
  two samples first, and the FM engine sees the register write after the two clock and
  output calls.
\<close>

theorem write_flushes_stream_first_witness:
  "(1::u32) AND 1 = 1
   \<and> produced (m_stream (write_y8950 mock 1 0x99
        ((mock_chip 0 0 100 5)\<lparr>m_address := 0x20,
                                m_stream := \<lparr>due = Suc (Suc 0), produced = [7]\<rparr>\<rparr>)))
       = [7, 100, 100]
   \<and> fm_calls (m_opl (write_y8950 mock 1 0x99
        ((mock_chip 0 0 100 5)\<lparr>m_address := 0x20,
                                m_stream := \<lparr>due = Suc (Suc 0), produced = [7]\<rparr>\<rparr>)))
       = [Fm_clock 0x1ff, Fm_output, Fm_clock 0x1ff, Fm_output, Fm_write 0x20 0x99]"
  using write_flushes_stream_first [where offset = 1 and E = mock and v = "0x99"
      and s = "(mock_chip 0 0 100 5)\<lparr>m_address := 0x20,
                 m_stream := \<lparr>due = Suc (Suc 0), produced = [7]\<rparr>\<rparr>"]
  by (simp add: mock_eval)

lemma write_offset_low_bit: "write_y8950 E offset v s = write_y8950 E (offset AND 1) v s"
  by (simp add: write_y8950_def and.assoc)

subsection \<open>The data port, read\<close>

text \<open>
  What holds of the data port read for all engines: the keyboard and I/O addresses
  return the handler's value, any address outside the table returns \<open>0xff\<close>, and in
  these cases the state is unchanged; the two ADPCM-B addresses read the engine's
  register \<open>offset - 0x07\<close>.
\<close>

lemma read_status_port: "offset AND 1 = 0 \<Longrightarrow> read E offset s = combine_status E s"
  by (simp add: read_def)

lemma read_data_port:
  assumes "offset AND 1 = 1"
  shows "m_address s = 0x05 \<Longrightarrow> read E offset s = (m_keyboard_read_handler E 0, s)"
    and "m_address s = 0x19 \<Longrightarrow> read E offset s = (m_io_read_handler E 0, s)"
    and "m_address s \<notin> {0x05, 0x09, 0x1a, 0x19} \<Longrightarrow> read E offset s = (0xff, s)"
    and "m_address s \<in> {0x09, 0x1a} \<Longrightarrow> read E offset s =
           (fst (adpcm_b_read E (offset - 0x07) (m_adpcm_b s)),
            s\<lparr>m_adpcm_b := snd (adpcm_b_read E (offset - 0x07) (m_adpcm_b s))\<rparr>)"
  using assms by (auto simp add: read_def split_beta)

text \<open>
  Claim C4 fails on the source at the two ADPCM-B addresses. With address \<open>0x09\<close>
  latched, the read at offset 1 asks the ADPCM-B engine for register \<open>1 - 0x07\<close>, that
  is \<open>0xfffffffa\<close>, and returns what the engine holds there (0), while register
  \<open>0x09 - 0x07\<close>, which the claim names, holds \<open>0x42\<close>.
\<close>

theorem read_adpcm_b_uses_offset:
  "fst (read mock 1 ((mock_chip 0 0 0 0)\<lparr>m_address := 0x09\<rparr>)) = 0
   \<and> ad_calls (m_adpcm_b (snd (read mock 1 ((mock_chip 0 0 0 0)\<lparr>m_address := 0x09\<rparr>))))
       = [Adpcm_read 0xfffffffa]
   \<and> ad_regs (m_adpcm_b ((mock_chip 0 0 0 0)\<lparr>m_address := 0x09\<rparr>)) (0x09 - 0x07) = 0x42"
  by (simp add: mock_eval)

text \<open>
  Claim C9 fails on the source for reads. Offsets 1 and 9 have the same low bit, yet
  with address \<open>0x09\<close> latched the read at offset 1 returns 0 and the read at offset 9
  returns \<open>0x42\<close>: the ADPCM-B register read is \<open>offset - 0x07\<close>.
\<close>

theorem read_depends_on_high_offset_bits:
  "(1::u32) AND 1 = 9 AND 1
   \<and> fst (read mock 1 ((mock_chip 0 0 0 0)\<lparr>m_address := 0x09\<rparr>)) = 0
   \<and> fst (read mock 9 ((mock_chip 0 0 0 0)\<lparr>m_address := 0x09\<rparr>)) = 0x42"
  by (simp add: mock_eval)

subsection \<open>The sample\<close>

text \<open>
  For all engines, the sample put out is the clamped quantization of what the FM engine
  adds to an accumulator of 0: the ADPCM-B output goes to \<open>sums\<close> and not into it.
\<close>

lemma sound_stream_update_sample_value:
  "fst (sound_stream_update_sample E s) =
     put_int_clamp (ymfm_roundtrip_fp E
       (fst (opl_output E 0 1 32767 0x1ff (opl_clock E 0x1ff (m_opl s))))) 32768"
  by (simp add: sound_stream_update_sample_def Let_def split_beta)

text \<open>
  Claim C3 fails on the source. With the FM engine putting out 100 and the ADPCM-B
  engine 5, one tick puts out the sample 100, not the quantization of the sum 105; the
  5 is added to \<open>sums\<close>.
\<close>

theorem sound_stream_update_leaves_adpcm_b_out:
  "fst (sound_stream_update mock 1 (mock_chip 0 0 100 5)) = [100]
   \<and> sums (snd (sound_stream_update mock 1 (mock_chip 0 0 100 5))) = [5, 0]"
  by (simp add: mock_eval)

end
